theory Spec2Isabelle
  imports Main
begin

section \<open>Python values that reach the application object\<close>

text \<open>
  The URL options of \<open>FastAPI.__init__\<close> are annotated \<open>Optional[str]\<close>, and the
  code tests them twice: by truth value (\<open>if self.openapi_url:\<close>) and by
  \<open>isinstance(..., str)\<close>. Both tests are modelled on a small universe of Python
  values. A string is a list of characters; \<open>endswith\<close> with an ASCII suffix reads
  the same on bytes and on code points.
\<close>

datatype pyval = PyNone | PyStr string | PyInt int | PyBool bool

fun truthy :: "pyval \<Rightarrow> bool" where
  "truthy PyNone = False"
| "truthy (PyStr s) = (s \<noteq> [])"
| "truthy (PyInt i) = (i \<noteq> 0)"
| "truthy (PyBool b) = b"

fun isinstance_str :: "pyval \<Rightarrow> bool" where
  "isinstance_str (PyStr s) = True"
| "isinstance_str v = False"

fun str_of :: "pyval \<Rightarrow> string" where
  "str_of (PyStr s) = s"
| "str_of v = []"

definition endswith :: "string \<Rightarrow> string \<Rightarrow> bool" where
  "endswith s suf = (length suf \<le> length s \<and> drop (length s - length suf) s = suf)"

text \<open>An \<open>assert\<close> that fails raises \<open>AssertionError\<close> with its message; \<open>openapi\<close>
  raises \<open>RuntimeError\<close>; an assignment to an attribute that cannot be set raises
  \<open>AttributeError\<close>, whose message is the interpreter's and differs between Python versions,
  so it is left out. Every raise of the source is an \<open>Inl\<close> of the model.\<close>

datatype error = AssertionError string | RuntimeError string | AttributeError

definition openapi_url_message :: string where
  "openapi_url_message = ''openapi_url must end with '.json'' @ [CHR 0x27]"

definition event_type_message :: string where
  "event_type_message = ''event_type must be 'startup' or 'shutdown'' @ [CHR 0x27]"

section \<open>Routes, middleware entries, handlers\<close>

text \<open>
  The endpoints that \<open>setup\<close> registers are the four lambdas of lines 129, 137, 149 and
  158; every other endpoint is a callable of the user, named by a number. A route is a
  \<open>Route\<close> (path, endpoint, methods, name, include_in_schema) or the \<open>Mount\<close> that
  \<open>mount\<close> builds (path, app, name).
\<close>

datatype endpoint =
  OpenAPIEndpoint | SwaggerUIEndpoint | OAuth2RedirectEndpoint | ReDocEndpoint | UserEndpoint nat

datatype route =
  Route pyval endpoint "string list option" "string option" bool
| Mount string nat "string option"

datatype middleware_class = ServerErrorMiddleware | MiddlewareClass nat

datatype Middleware = Middleware (cls: middleware_class) (options: "(string \<times> pyval) list")

datatype exc_key =
  StarletteHTTPException | RequestValidationError | ExceptionClass string | StatusCode int

datatype handler =
  http_exception_handler | request_validation_exception_handler | UserHandler nat

datatype json =
  JNull | JBool bool | JNum int | JStr string | JArr "json list" | JObj "(string \<times> json) list"

type_synonym document = "(string \<times> json) list"

section \<open>The Router\<close>

text \<open>Modelled from the spec: the class \<open>routing.APIRouter\<close> is imported by
  \<open>applications.py\<close> and is not part of the source file. The spec's Router "owns the
  ordered collection of route entries", "owns startup/shutdown hook lists" and "an optional
  webhook sub-collection", and "supports incremental registration".\<close>

record APIRouter =
  router_routes :: "route list"
  on_startup :: "nat list"
  on_shutdown :: "nat list"
  webhooks :: "route list option"

text \<open>Modelled from the spec: the constructor of the Router, called at lines 72-83 with
  the \<open>routes\<close>, \<open>on_startup\<close>, \<open>on_shutdown\<close> and \<open>webhooks\<close> options; an option left
  \<open>None\<close> gives an empty collection.\<close>

definition APIRouter_init ::
  "route list option \<Rightarrow> nat list option \<Rightarrow> nat list option \<Rightarrow> route list option \<Rightarrow> APIRouter" where
  "APIRouter_init rs su sd wh =
     \<lparr> router_routes = (case rs of None \<Rightarrow> [] | Some l \<Rightarrow> l),
       on_startup = (case su of None \<Rightarrow> [] | Some l \<Rightarrow> l),
       on_shutdown = (case sd of None \<Rightarrow> [] | Some l \<Rightarrow> l),
       webhooks = wh \<rparr>"

text \<open>Modelled from the spec: \<open>Router.add_route\<close>, the "incremental registration" of one
  route entry at the end of the ordered collection. The path checks of the routing engine
  are outside the spec's scope and are not modelled.\<close>

definition router_add_route ::
  "APIRouter \<Rightarrow> pyval \<Rightarrow> endpoint \<Rightarrow> string list option \<Rightarrow> string option \<Rightarrow> bool \<Rightarrow> APIRouter" where
  "router_add_route r path ep methods name include_in_schema =
     r\<lparr>router_routes := router_routes r @ [Route path ep methods name include_in_schema]\<rparr>"

section \<open>The application object\<close>

text \<open>
  The attributes that \<open>__init__\<close> assigns and that \<open>setup\<close>, \<open>openapi\<close> or a registration
  method reads or writes. The attributes \<open>state\<close>, \<open>root_path\<close>,
  \<open>root_path_in_servers\<close>, \<open>dependencies\<close>, \<open>default_response_class\<close>,
  \<open>swagger_ui_init_oauth\<close>, \<open>openapi_prefix\<close>, \<open>swagger_ui_parameters\<close> and \<open>extra\<close> are
  stored and never read by these methods (the documentation lambdas that mention some of
  them run at request time); they are left out.

  The object has no attribute \<open>routes\<close> of its own: \<open>__init__\<close> assigns none, so
  \<open>self.routes\<close> (lines 114, 165, 187 and 293) is what the class inherits from its base
  class \<open>Starlette\<close> (line 32), see \<open>routes\<close> below.
\<close>

record FastAPI =
  debug :: bool
  router :: APIRouter
  title :: string
  description :: string
  version :: string
  terms_of_service :: "string option"
  contact :: "json option"
  license_info :: "json option"
  openapi_url :: pyval
  openapi_tags :: "json list option"
  servers :: "json list"
  middleware :: "Middleware list"
  exception_handlers :: "exc_key \<rightharpoonup> handler"
  user_middleware :: "Middleware list"
  openapi_schema :: "document option"
  docs_url :: pyval
  redoc_url :: pyval
  swagger_ui_oauth2_redirect_url :: pyval

text \<open>
  \<open>self.routes\<close>. The base class \<open>Starlette\<close> is imported at line 17 and is not part of the
  source file; there \<open>routes\<close> is a property without a setter that returns
  \<open>self.router.routes\<close>, the Router's list object itself and not a copy. Reading
  \<open>self.routes\<close> therefore reads the Router's list, a mutation of \<open>self.routes\<close> mutates the
  Router's list, and an assignment to \<open>self.routes\<close> raises \<open>AttributeError\<close>.
\<close>

definition routes :: "FastAPI \<Rightarrow> route list" where
  "routes a = router_routes (router a)"

text \<open>The keyword arguments of \<open>__init__\<close> that reach those attributes.\<close>

record config =
  arg_debug :: bool
  arg_routes :: "route list option"
  arg_title :: string
  arg_description :: string
  arg_version :: string
  arg_openapi_url :: pyval
  arg_openapi_tags :: "json list option"
  arg_servers :: "json list option"
  arg_docs_url :: pyval
  arg_redoc_url :: pyval
  arg_swagger_ui_oauth2_redirect_url :: pyval
  arg_middleware :: "Middleware list option"
  arg_exception_handlers :: "(exc_key \<rightharpoonup> handler) option"
  arg_on_startup :: "nat list option"
  arg_on_shutdown :: "nat list option"
  arg_terms_of_service :: "string option"
  arg_contact :: "json option"
  arg_license_info :: "json option"
  arg_webhooks :: "route list option"

text \<open>The defaults of the signature (lines 36-67).\<close>

definition default_config :: config where
  "default_config =
     \<lparr> arg_debug = False, arg_routes = None, arg_title = ''FastAPI'', arg_description = [],
       arg_version = ''0.1.0'', arg_openapi_url = PyStr ''/openapi.json'',
       arg_openapi_tags = None, arg_servers = None, arg_docs_url = PyStr ''/docs'',
       arg_redoc_url = PyStr ''/redoc'',
       arg_swagger_ui_oauth2_redirect_url = PyStr ''/docs/oauth2-redirect'',
       arg_middleware = None, arg_exception_handlers = None, arg_on_startup = None,
       arg_on_shutdown = None, arg_terms_of_service = None, arg_contact = None,
       arg_license_info = None, arg_webhooks = None \<rparr>"

section \<open>Registration methods (lines 248-293)\<close>

text \<open>\<open>self.user_middleware.insert(0, Middleware(middleware_class, **kwargs))\<close>.\<close>

definition add_middleware ::
  "FastAPI \<Rightarrow> middleware_class \<Rightarrow> (string \<times> pyval) list \<Rightarrow> FastAPI" where
  "add_middleware a middleware_class kwargs =
     a\<lparr>user_middleware := Middleware middleware_class kwargs # user_middleware a\<rparr>"

text \<open>\<open>self.exception_handlers[exc_class_or_status_code] = handler\<close>.\<close>

definition add_exception_handler :: "FastAPI \<Rightarrow> exc_key \<Rightarrow> handler \<Rightarrow> FastAPI" where
  "add_exception_handler a exc_class_or_status_code h =
     a\<lparr>exception_handlers := (exception_handlers a)(exc_class_or_status_code \<mapsto> h)\<rparr>"

text \<open>The assertion of line 259, then an append to one of the Router's two hook lists.\<close>

definition add_event_handler :: "FastAPI \<Rightarrow> string \<Rightarrow> nat \<Rightarrow> error + FastAPI" where
  "add_event_handler a event_type func =
     (if event_type = ''startup'' \<or> event_type = ''shutdown'' then
        (if event_type = ''startup''
         then Inr (a\<lparr>router := (router a)\<lparr>on_startup := on_startup (router a) @ [func]\<rparr>\<rparr>)
         else Inr (a\<lparr>router := (router a)\<lparr>on_shutdown := on_shutdown (router a) @ [func]\<rparr>\<rparr>))
      else Inl (AssertionError event_type_message))"

text \<open>\<open>add_route\<close> hands its arguments to the Router.\<close>

definition add_route ::
  "FastAPI \<Rightarrow> pyval \<Rightarrow> endpoint \<Rightarrow> string list option \<Rightarrow> string option \<Rightarrow> bool \<Rightarrow> FastAPI" where
  "add_route a path ep methods name include_in_schema =
     a\<lparr>router := router_add_route (router a) path ep methods name include_in_schema\<rparr>"

text \<open>\<open>route = Mount(path, app=app, name=name); self.routes.append(route)\<close>: the list
  that \<open>self.routes\<close> returns is the Router's, and the append mutates it in place.\<close>

definition mount :: "FastAPI \<Rightarrow> string \<Rightarrow> nat \<Rightarrow> string option \<Rightarrow> FastAPI" where
  "mount a path app name =
     a\<lparr>router := (router a)\<lparr>router_routes := routes a @ [Mount path app name]\<rparr>\<rparr>"

section \<open>\<open>setup\<close> (lines 113-176)\<close>

text \<open>Lines 123-130: the schema route.\<close>

definition setup_openapi :: "FastAPI \<Rightarrow> error + FastAPI" where
  "setup_openapi a =
     (if truthy (openapi_url a) then
        (if isinstance_str (openapi_url a) \<and> endswith (str_of (openapi_url a)) ''.json''
         then Inr (add_route a (openapi_url a) OpenAPIEndpoint None None False)
         else Inl (AssertionError openapi_url_message))
      else Inr a)"

text \<open>Lines 132-151: the Swagger UI page and its OAuth2 redirect helper.\<close>

definition setup_docs :: "FastAPI \<Rightarrow> error + FastAPI" where
  "setup_docs a =
     (if truthy (docs_url a) then
        (if isinstance_str (docs_url a) then
           (let a1 = add_route a (docs_url a) SwaggerUIEndpoint None None False in
            Inr (if truthy (swagger_ui_oauth2_redirect_url a1)
                 then add_route a1 (swagger_ui_oauth2_redirect_url a1)
                        OAuth2RedirectEndpoint None None False
                 else a1))
         else Inl (AssertionError ''docs_url must be a string''))
      else Inr a)"

text \<open>Lines 153-162: the ReDoc page.\<close>

definition setup_redoc :: "FastAPI \<Rightarrow> error + FastAPI" where
  "setup_redoc a =
     (if truthy (redoc_url a) then
        (if isinstance_str (redoc_url a)
         then Inr (add_route a (redoc_url a) ReDocEndpoint None None False)
         else Inl (AssertionError ''redoc_url must be a string''))
      else Inr a)"

text \<open>Lines 169-172: \<open>for middleware in self.middleware\<close>. The body writes
  \<open>user_middleware\<close> only, so the list that is iterated does not change.\<close>

fun add_each :: "FastAPI \<Rightarrow> Middleware list \<Rightarrow> FastAPI" where
  "add_each a [] = a"
| "add_each a (m # ms) = add_each (add_middleware a (cls m) (options m)) ms"

text \<open>
  Lines 173-176: \<open>for middleware in reversed(self.user_middleware)\<close>. \<open>reversed\<close> of a
  list is an iterator over the list object itself: it holds an index that starts at
  \<open>len - 1\<close>, yields the element at the index while \<open>0 \<le> index < len\<close> and counts down.
  The body inserts at the front of the very list that is iterated, so the model keeps the
  live list in the state and the index in the first argument (\<open>Suc i\<close> stands for
  index \<open>i\<close>, \<open>0\<close> for index \<open>-1\<close>).
\<close>

fun add_reversed :: "nat \<Rightarrow> FastAPI \<Rightarrow> FastAPI" where
  "add_reversed 0 a = a"
| "add_reversed (Suc i) a =
     (if i < length (user_middleware a)
      then (let m = user_middleware a ! i
            in add_reversed i (add_middleware a (cls m) (options m)))
      else a)"

text \<open>Lines 167-176.\<close>

definition setup_middleware :: "FastAPI \<Rightarrow> FastAPI" where
  "setup_middleware a =
     (let a1 = add_middleware a ServerErrorMiddleware [(''debug'', PyBool (debug a))];
          a2 = add_each a1 (middleware a1)
      in add_reversed (length (user_middleware a2)) a2)"

text \<open>Lines 117-121: the two built-in handlers.\<close>

definition setup_exception_handlers :: "FastAPI \<Rightarrow> FastAPI" where
  "setup_exception_handlers a =
     add_exception_handler
       (add_exception_handler a StarletteHTTPException http_exception_handler)
       RequestValidationError request_validation_exception_handler"

text \<open>
  The whole method \<open>FastAPI.setup\<close>, in the order of the source; an exception leaves it at
  once. (The name carries the class as a prefix, since the bare word is a command of
  Isabelle.)

  Lines 114-115, \<open>if not self.routes: self.routes = []\<close>: when the Router's list is empty
  the assignment is run, and it raises \<open>AttributeError\<close>, since \<open>routes\<close> has no setter.

  Line 165, \<open>self.routes.extend(self.router.routes)\<close>: both expressions are the Router's
  list object. \<open>list.extend\<close> reads the length of its argument once, before it appends, so
  extending a list with itself appends one copy of its content. The list that
  \<open>self.routes\<close> returns is mutated in place, which is a write to the Router's list.
\<close>

definition FastAPI_setup :: "FastAPI \<Rightarrow> error + FastAPI" where
  "FastAPI_setup a0 =
     (if routes a0 = [] then Inl AttributeError
      else
        (let a2 = setup_exception_handlers a0
         in case setup_openapi a2 of
              Inl e \<Rightarrow> Inl e
            | Inr a3 \<Rightarrow>
                (case setup_docs a3 of
                   Inl e \<Rightarrow> Inl e
                 | Inr a4 \<Rightarrow>
                     (case setup_redoc a4 of
                        Inl e \<Rightarrow> Inl e
                      | Inr a5 \<Rightarrow>
                          Inr (setup_middleware
                                 (a5\<lparr>router := (router a5)
                                    \<lparr>router_routes :=
                                       routes a5 @ router_routes (router a5)\<rparr>\<rparr>))))))"

section \<open>\<open>__init__\<close> (lines 33-111)\<close>

text \<open>The attribute assignments of lines 70-109.
  \<open>dict(exception_handlers or {})\<close> and \<open>list(middleware or [])\<close> copy the argument, or
  start empty when it is \<open>None\<close> or empty.\<close>

definition FastAPI_attributes :: "config \<Rightarrow> FastAPI" where
  "FastAPI_attributes c =
     \<lparr> debug = arg_debug c,
       router = APIRouter_init (arg_routes c) (arg_on_startup c) (arg_on_shutdown c)
                  (arg_webhooks c),
       title = arg_title c,
       description = arg_description c,
       version = arg_version c,
       terms_of_service = arg_terms_of_service c,
       contact = arg_contact c,
       license_info = arg_license_info c,
       openapi_url = arg_openapi_url c,
       openapi_tags = arg_openapi_tags c,
       servers = (case arg_servers c of None \<Rightarrow> [] | Some l \<Rightarrow> l),
       middleware = (case arg_middleware c of None \<Rightarrow> [] | Some l \<Rightarrow> l),
       exception_handlers =
         (case arg_exception_handlers c of None \<Rightarrow> Map.empty | Some m \<Rightarrow> m),
       user_middleware = [],
       openapi_schema = None,
       docs_url = arg_docs_url c,
       redoc_url = arg_redoc_url c,
       swagger_ui_oauth2_redirect_url = arg_swagger_ui_oauth2_redirect_url c \<rparr>"

text \<open>Line 111: \<open>self.setup()\<close> ends the constructor; an exception of \<open>setup\<close> leaves it,
  and no object is returned.\<close>

definition FastAPI_init :: "config \<Rightarrow> error + FastAPI" where
  "FastAPI_init c = FastAPI_setup (FastAPI_attributes c)"

section \<open>\<open>openapi\<close> (lines 178-195)\<close>

text \<open>The keyword arguments that line 183 passes to \<open>get_openapi\<close>.\<close>

record openapi_args =
  oa_title :: string
  oa_version :: string
  oa_description :: string
  oa_routes :: "route list"
  oa_tags :: "json list option"
  oa_servers :: "json list"
  oa_terms_of_service :: "string option"
  oa_contact :: "json option"
  oa_license_info :: "json option"
  oa_webhooks :: "route list option"

definition get_openapi_args :: "FastAPI \<Rightarrow> openapi_args" where
  "get_openapi_args a =
     \<lparr> oa_title = title a, oa_version = version a, oa_description = description a,
       oa_routes = routes a, oa_tags = openapi_tags a, oa_servers = servers a,
       oa_terms_of_service = terms_of_service a, oa_contact = contact a,
       oa_license_info = license_info a, oa_webhooks = webhooks (router a) \<rparr>"

text \<open>
  The schema compiler \<open>get_openapi\<close> is imported from \<open>fastapi.openapi.utils\<close>; the method
  takes it as its first argument here. The result is the returned document and the
  application with its cache. \<open>if self._openapi_schema:\<close> is the truth value of an
  optional dictionary: false for \<open>None\<close> and for the empty dictionary.
\<close>

definition openapi ::
  "(openapi_args \<Rightarrow> document) \<Rightarrow> FastAPI \<Rightarrow> error + (document \<times> FastAPI)" where
  "openapi get_openapi a =
     (if \<not> truthy (openapi_url a)
      then Inl (RuntimeError ''The OpenAPI URL is not set, it was disabled.'')
      else (case openapi_schema a of
              Some d \<Rightarrow>
                (if d \<noteq> [] then Inr (d, a)
                 else (let d' = get_openapi (get_openapi_args a)
                       in Inr (d', a\<lparr>openapi_schema := Some d'\<rparr>)))
            | None \<Rightarrow>
                (let d' = get_openapi (get_openapi_args a)
                 in Inr (d', a\<lparr>openapi_schema := Some d'\<rparr>))))"

section \<open>Clients of the registration methods, and sample inputs\<close>

text \<open>The endpoint of a route; a \<open>Mount\<close> has an application, not an endpoint.\<close>

fun endpoint_of :: "route \<Rightarrow> endpoint option" where
  "endpoint_of (Route path ep methods name include_in_schema) = Some ep"
| "endpoint_of (Mount path app name) = None"

text \<open>A client that calls \<open>add_event_handler\<close> once per entry of a list, in order; the
  first exception ends the run.\<close>

fun add_event_handlers :: "FastAPI \<Rightarrow> (string \<times> nat) list \<Rightarrow> error + FastAPI" where
  "add_event_handlers a [] = Inr a"
| "add_event_handlers a ((event_type, func) # calls) =
     (case add_event_handler a event_type func of
        Inl e \<Rightarrow> Inl e
      | Inr a' \<Rightarrow> add_event_handlers a' calls)"

text \<open>\<open>FastAPI(routes=[Route("/", home)])\<close>, with \<open>home\<close> the user's callable number 0 and
  the defaults of \<open>Route\<close> for its other arguments. Every sample application below is
  constructed with this one route: without a route, line 115 raises.\<close>

definition home_route :: route where
  "home_route = Route (PyStr ''/'') (UserEndpoint 0) None None True"

definition routed_config :: config where
  "routed_config = default_config\<lparr>arg_routes := Some [home_route]\<rparr>"

text \<open>\<open>FastAPI(routes=[Route("/", home)], middleware=[Middleware(A), Middleware(B)])\<close>,
  with \<open>A\<close> and \<open>B\<close> the classes number 0 and 1.\<close>

definition two_middleware_config :: config where
  "two_middleware_config =
     routed_config\<lparr>arg_middleware :=
       Some [Middleware (MiddlewareClass 0) [], Middleware (MiddlewareClass 1) []]\<rparr>"

text \<open>\<open>FastAPI(routes=[Route("/", home)], exception_handlers={StarletteHTTPException: h1,
  RequestValidationError: h2, 404: h3})\<close>.\<close>

definition custom_handlers_config :: config where
  "custom_handlers_config =
     routed_config\<lparr>arg_exception_handlers :=
       Some [StarletteHTTPException \<mapsto> UserHandler 1,
             RequestValidationError \<mapsto> UserHandler 2,
             StatusCode 404 \<mapsto> UserHandler 3]\<rparr>"

text \<open>A schema compiler for the examples: it returns a document with a version tag, an
  \<open>info\<close> object and an empty \<open>paths\<close> object.\<close>

definition sample_get_openapi :: "openapi_args \<Rightarrow> document" where
  "sample_get_openapi args =
     [(''openapi'', JStr ''3.0.2''),
      (''info'', JObj [(''title'', JStr (oa_title args)), (''version'', JStr (oa_version args))]),
      (''paths'', JObj [])]"

text \<open>The same constructor call with, besides, \<open>openapi_url=None\<close>,
  \<open>openapi_url="/openapi.yaml"\<close>, \<open>openapi_url=""\<close>, \<open>docs_url=""\<close> and \<open>docs_url=5\<close>.\<close>

definition no_schema_config :: config where
  "no_schema_config = routed_config\<lparr>arg_openapi_url := PyNone\<rparr>"

definition yaml_schema_config :: config where
  "yaml_schema_config = routed_config\<lparr>arg_openapi_url := PyStr ''/openapi.yaml''\<rparr>"

definition empty_schema_config :: config where
  "empty_schema_config = routed_config\<lparr>arg_openapi_url := PyStr []\<rparr>"



section \<open>What \<open>setup\<close> changes\<close>

lemma add_each_eq: "add_each a ms = a\<lparr>user_middleware := rev ms @ user_middleware a\<rparr>"
  by (induction ms arbitrary: a) (simp_all add: add_middleware_def)

lemma add_reversed_frame: "\<exists>l. add_reversed n a = a\<lparr>user_middleware := l\<rparr>"
proof (induction n arbitrary: a)
  case 0
  have "a = a\<lparr>user_middleware := user_middleware a\<rparr>" by simp
  then show ?case unfolding add_reversed.simps by blast
next
  case (Suc n)
  show ?case
  proof (cases "n < length (user_middleware a)")
    case True
    let ?b = "add_middleware a (cls (user_middleware a ! n)) (options (user_middleware a ! n))"
    from Suc.IH [of ?b] obtain l where "add_reversed n ?b = ?b\<lparr>user_middleware := l\<rparr>" ..
    then have "add_reversed (Suc n) a = a\<lparr>user_middleware := l\<rparr>"
      using True by (simp add: add_middleware_def)
    then show ?thesis ..
  next
    case False
    have "a = a\<lparr>user_middleware := user_middleware a\<rparr>" by simp
    with False show ?thesis by (metis add_reversed.simps(2))
  qed
qed

lemma setup_middleware_frame: "\<exists>l. setup_middleware a = a\<lparr>user_middleware := l\<rparr>"
proof -
  let ?a1 = "add_middleware a ServerErrorMiddleware [(''debug'', PyBool (debug a))]"
  let ?a2 = "add_each ?a1 (middleware ?a1)"
  obtain l where "add_reversed (length (user_middleware ?a2)) ?a2 = ?a2\<lparr>user_middleware := l\<rparr>"
    using add_reversed_frame by blast
  then have "setup_middleware a = a\<lparr>user_middleware := l\<rparr>"
    by (simp add: setup_middleware_def Let_def add_each_eq add_middleware_def)
  then show ?thesis ..
qed

lemma setup_openapi_Inr:
  "setup_openapi a = Inr a' \<Longrightarrow>
   a' = a\<lparr>router := (router a)\<lparr>router_routes := router_routes (router a) @
          (if truthy (openapi_url a)
           then [Route (openapi_url a) OpenAPIEndpoint None None False] else [])\<rparr>\<rparr>"
  by (auto simp: setup_openapi_def add_route_def router_add_route_def split: if_splits)

lemma setup_docs_Inr:
  "setup_docs a = Inr a' \<Longrightarrow>
   a' = a\<lparr>router := (router a)\<lparr>router_routes := router_routes (router a) @
          (if truthy (docs_url a)
           then Route (docs_url a) SwaggerUIEndpoint None None False #
                (if truthy (swagger_ui_oauth2_redirect_url a)
                 then [Route (swagger_ui_oauth2_redirect_url a) OAuth2RedirectEndpoint
                         None None False]
                 else [])
           else [])\<rparr>\<rparr>"
  by (auto simp: setup_docs_def Let_def add_route_def router_add_route_def split: if_splits)

lemma setup_redoc_Inr:
  "setup_redoc a = Inr a' \<Longrightarrow>
   a' = a\<lparr>router := (router a)\<lparr>router_routes := router_routes (router a) @
          (if truthy (redoc_url a)
           then [Route (redoc_url a) ReDocEndpoint None None False] else [])\<rparr>\<rparr>"
  by (auto simp: setup_redoc_def add_route_def router_add_route_def split: if_splits)

lemma FastAPI_setup_stages:
  assumes "FastAPI_setup a0 = Inr a"
  obtains a3 a4 a5 where
    "routes a0 \<noteq> []"
    "setup_openapi (setup_exception_handlers a0) = Inr a3"
    "setup_docs a3 = Inr a4"
    "setup_redoc a4 = Inr a5"
    "a = setup_middleware
           (a5\<lparr>router := (router a5)\<lparr>router_routes := routes a5 @ router_routes (router a5)\<rparr>\<rparr>)"
  using assms
  by (auto simp: FastAPI_setup_def Let_def split: sum.splits if_splits)

lemma FastAPI_setup_router_routes:
  assumes "FastAPI_setup a0 = Inr a"
  shows "router_routes (router a) =
           (let l = router_routes (router a0) @
                  (if truthy (openapi_url a0)
                   then [Route (openapi_url a0) OpenAPIEndpoint None None False] else []) @
                  (if truthy (docs_url a0)
                   then Route (docs_url a0) SwaggerUIEndpoint None None False #
                        (if truthy (swagger_ui_oauth2_redirect_url a0)
                         then [Route (swagger_ui_oauth2_redirect_url a0) OAuth2RedirectEndpoint
                                 None None False]
                         else [])
                   else []) @
                  (if truthy (redoc_url a0)
                   then [Route (redoc_url a0) ReDocEndpoint None None False] else [])
            in l @ l)"
proof -
  from assms obtain a3 a4 a5 where
    s3: "setup_openapi (setup_exception_handlers a0) = Inr a3" and
    s4: "setup_docs a3 = Inr a4" and
    s5: "setup_redoc a4 = Inr a5" and
    a: "a = setup_middleware
              (a5\<lparr>router := (router a5)\<lparr>router_routes := routes a5 @ router_routes (router a5)\<rparr>\<rparr>)"
    by (rule FastAPI_setup_stages)
  obtain l where
    l: "setup_middleware
          (a5\<lparr>router := (router a5)\<lparr>router_routes := routes a5 @ router_routes (router a5)\<rparr>\<rparr>)
        = (a5\<lparr>router := (router a5)\<lparr>router_routes := routes a5 @ router_routes (router a5)\<rparr>\<rparr>)
            \<lparr>user_middleware := l\<rparr>"
    using setup_middleware_frame by blast
  show ?thesis
    unfolding a l
    unfolding setup_redoc_Inr [OF s5] setup_docs_Inr [OF s4] setup_openapi_Inr [OF s3]
    by (simp add: Let_def routes_def setup_exception_handlers_def add_exception_handler_def)
qed

lemma FastAPI_setup_frame:
  assumes "FastAPI_setup a0 = Inr a"
  shows "a = a0
           \<lparr>exception_handlers := (exception_handlers a0)
               (StarletteHTTPException \<mapsto> http_exception_handler,
                RequestValidationError \<mapsto> request_validation_exception_handler),
            router := (router a0)\<lparr>router_routes := router_routes (router a)\<rparr>,
            user_middleware := user_middleware a\<rparr>"
proof -
  from assms obtain a3 a4 a5 where
    s3: "setup_openapi (setup_exception_handlers a0) = Inr a3" and
    s4: "setup_docs a3 = Inr a4" and
    s5: "setup_redoc a4 = Inr a5" and
    a: "a = setup_middleware
              (a5\<lparr>router := (router a5)\<lparr>router_routes := routes a5 @ router_routes (router a5)\<rparr>\<rparr>)"
    by (rule FastAPI_setup_stages)
  obtain l where
    l: "setup_middleware
          (a5\<lparr>router := (router a5)\<lparr>router_routes := routes a5 @ router_routes (router a5)\<rparr>\<rparr>)
        = (a5\<lparr>router := (router a5)\<lparr>router_routes := routes a5 @ router_routes (router a5)\<rparr>\<rparr>)
            \<lparr>user_middleware := l\<rparr>"
    using setup_middleware_frame by blast
  show ?thesis
    unfolding a l
    unfolding setup_redoc_Inr [OF s5] setup_docs_Inr [OF s4] setup_openapi_Inr [OF s3]
    by (simp add: routes_def setup_exception_handlers_def add_exception_handler_def)
qed

lemmas eval_defs =
  FastAPI_init_def FastAPI_attributes_def default_config_def routed_config_def home_route_def
  FastAPI_setup_def routes_def
  setup_exception_handlers_def add_exception_handler_def setup_openapi_def setup_docs_def
  setup_redoc_def setup_middleware_def add_middleware_def add_route_def
  router_add_route_def APIRouter_init_def endswith_def Let_def

lemma FastAPI_setup_Inl_iff:
  "FastAPI_setup a = Inl e \<longleftrightarrow>
     (if routes a = []
      then e = AttributeError
      else if truthy (openapi_url a) \<and>
         \<not> (isinstance_str (openapi_url a) \<and> endswith (str_of (openapi_url a)) ''.json'')
      then e = AssertionError openapi_url_message
      else if truthy (docs_url a) \<and> \<not> isinstance_str (docs_url a)
      then e = AssertionError ''docs_url must be a string''
      else truthy (redoc_url a) \<and> \<not> isinstance_str (redoc_url a) \<and>
           e = AssertionError ''redoc_url must be a string'')"
  by (auto simp: FastAPI_setup_def Let_def setup_exception_handlers_def
        add_exception_handler_def setup_openapi_def setup_docs_def setup_redoc_def
        add_route_def router_add_route_def routes_def split: sum.splits if_splits)

lemma FastAPI_attributes_sel:
  "openapi_url (FastAPI_attributes c) = arg_openapi_url c"
  "docs_url (FastAPI_attributes c) = arg_docs_url c"
  "redoc_url (FastAPI_attributes c) = arg_redoc_url c"
  "swagger_ui_oauth2_redirect_url (FastAPI_attributes c) = arg_swagger_ui_oauth2_redirect_url c"
  "routes (FastAPI_attributes c) = (case arg_routes c of None \<Rightarrow> [] | Some l \<Rightarrow> l)"
  "router_routes (router (FastAPI_attributes c)) = (case arg_routes c of None \<Rightarrow> [] | Some l \<Rightarrow> l)"
  "exception_handlers (FastAPI_attributes c) =
     (case arg_exception_handlers c of None \<Rightarrow> Map.empty | Some m \<Rightarrow> m)"
  by (simp_all add: FastAPI_attributes_def APIRouter_init_def routes_def)

lemma FastAPI_init_Inr:
  assumes "FastAPI_init c = Inr a"
  shows "openapi_url a = arg_openapi_url c"
    and "exception_handlers a =
           (case arg_exception_handlers c of None \<Rightarrow> Map.empty | Some m \<Rightarrow> m)
             (StarletteHTTPException \<mapsto> http_exception_handler,
              RequestValidationError \<mapsto> request_validation_exception_handler)"
    and "router_routes (router a) =
           (let l = (case arg_routes c of None \<Rightarrow> [] | Some l \<Rightarrow> l) @
                  (if truthy (arg_openapi_url c)
                   then [Route (arg_openapi_url c) OpenAPIEndpoint None None False] else []) @
                  (if truthy (arg_docs_url c)
                   then Route (arg_docs_url c) SwaggerUIEndpoint None None False #
                        (if truthy (arg_swagger_ui_oauth2_redirect_url c)
                         then [Route (arg_swagger_ui_oauth2_redirect_url c)
                                 OAuth2RedirectEndpoint None None False]
                         else [])
                   else []) @
                  (if truthy (arg_redoc_url c)
                   then [Route (arg_redoc_url c) ReDocEndpoint None None False] else [])
            in l @ l)"
proof -
  let ?a0 = "FastAPI_attributes c"
  from assms have s: "FastAPI_setup ?a0 = Inr a"
    by (simp add: FastAPI_init_def)
  note a = FastAPI_setup_frame [OF s]
  have "openapi_url a = openapi_url ?a0"
    by (subst a) simp
  then show "openapi_url a = arg_openapi_url c"
    by (simp add: FastAPI_attributes_sel)
  have "exception_handlers a = (exception_handlers ?a0)
             (StarletteHTTPException \<mapsto> http_exception_handler,
              RequestValidationError \<mapsto> request_validation_exception_handler)"
    by (subst a) simp
  then show "exception_handlers a =
           (case arg_exception_handlers c of None \<Rightarrow> Map.empty | Some m \<Rightarrow> m)
             (StarletteHTTPException \<mapsto> http_exception_handler,
              RequestValidationError \<mapsto> request_validation_exception_handler)"
    by (simp add: FastAPI_attributes_sel)
  from FastAPI_setup_router_routes [OF s]
  show "router_routes (router a) =
           (let l = (case arg_routes c of None \<Rightarrow> [] | Some l \<Rightarrow> l) @
                  (if truthy (arg_openapi_url c)
                   then [Route (arg_openapi_url c) OpenAPIEndpoint None None False] else []) @
                  (if truthy (arg_docs_url c)
                   then Route (arg_docs_url c) SwaggerUIEndpoint None None False #
                        (if truthy (arg_swagger_ui_oauth2_redirect_url c)
                         then [Route (arg_swagger_ui_oauth2_redirect_url c)
                                 OAuth2RedirectEndpoint None None False]
                         else [])
                   else []) @
                  (if truthy (arg_redoc_url c)
                   then [Route (arg_redoc_url c) ReDocEndpoint None None False] else [])
            in l @ l)"
    by (simp only: FastAPI_attributes_sel)
qed

lemma FastAPI_init_Inl_iff:
  "FastAPI_init c = Inl e \<longleftrightarrow>
     (if (case arg_routes c of None \<Rightarrow> [] | Some l \<Rightarrow> l) = []
      then e = AttributeError
      else if truthy (arg_openapi_url c) \<and>
         \<not> (isinstance_str (arg_openapi_url c) \<and> endswith (str_of (arg_openapi_url c)) ''.json'')
      then e = AssertionError openapi_url_message
      else if truthy (arg_docs_url c) \<and> \<not> isinstance_str (arg_docs_url c)
      then e = AssertionError ''docs_url must be a string''
      else truthy (arg_redoc_url c) \<and> \<not> isinstance_str (arg_redoc_url c) \<and>
           e = AssertionError ''redoc_url must be a string'')"
  unfolding FastAPI_init_def FastAPI_setup_Inl_iff
  by (simp only: FastAPI_attributes_sel)

lemma get_openapi_args_cache [simp]:
  "get_openapi_args (a\<lparr>openapi_schema := s\<rparr>) = get_openapi_args a"
  by (simp add: get_openapi_args_def routes_def)

lemma isl_iff_Inl: "isl x \<longleftrightarrow> (\<exists>e. x = Inl e)"
  by (cases x) simp_all

lemma endswith_nonempty: "endswith s suf \<Longrightarrow> suf \<noteq> [] \<Longrightarrow> s \<noteq> []"
  by (auto simp: endswith_def)

lemma add_event_handlers_hooks:
  "add_event_handlers a calls = Inr a' \<Longrightarrow>
     on_startup (router a') =
       on_startup (router a) @ map snd (filter (\<lambda>call. fst call = ''startup'') calls)
   \<and> on_shutdown (router a') =
       on_shutdown (router a) @ map snd (filter (\<lambda>call. fst call = ''shutdown'') calls)"
proof (induction calls arbitrary: a)
  case Nil
  then show ?case by simp
next
  case (Cons call calls)
  obtain event_type func where call: "call = (event_type, func)" by (cases call)
  from Cons.prems call obtain a1 where
    a1: "add_event_handler a event_type func = Inr a1" and
    rest: "add_event_handlers a1 calls = Inr a'"
    by (auto split: sum.splits)
  from a1 have
    "on_startup (router a1) =
       on_startup (router a) @ (if event_type = ''startup'' then [func] else [])"
    "on_shutdown (router a1) =
       on_shutdown (router a) @ (if event_type = ''shutdown'' then [func] else [])"
    by (auto simp: add_event_handler_def split: if_splits)
  with Cons.IH [OF rest] call show ?case by simp
qed

section \<open>The exception handler registry\<close>

text \<open>
  Claim C4. \<open>add_exception_handler\<close> is a last-write-wins upsert: after two calls with the
  same key (an exception type or an integer status code) and two handlers, the registry
  maps the key to the second handler, every other key keeps its entry, the rest of the
  application is as after the first call, and no call raises (the method has no error
  result at all).
\<close>

theorem add_exception_handler_last_write_wins:
  "exception_handlers (add_exception_handler (add_exception_handler a k h1) k h2) k = Some h2
   \<and> (\<forall>k'. k' \<noteq> k \<longrightarrow>
         exception_handlers (add_exception_handler (add_exception_handler a k h1) k h2) k'
           = exception_handlers a k')
   \<and> add_exception_handler (add_exception_handler a k h1) k h2 = add_exception_handler a k h2"
  by (simp add: add_exception_handler_def)

theorem add_exception_handler_last_write_wins_witness:
  "exception_handlers
     (add_exception_handler
        (add_exception_handler
           (add_exception_handler (FastAPI_attributes routed_config)
              (ExceptionClass ''KeyError'') (UserHandler 7))
           (StatusCode 404) (UserHandler 1))
        (StatusCode 404) (UserHandler 2)) (StatusCode 404) = Some (UserHandler 2)
   \<and> exception_handlers
       (add_exception_handler
          (add_exception_handler
             (add_exception_handler (FastAPI_attributes routed_config)
                (ExceptionClass ''KeyError'') (UserHandler 7))
             (StatusCode 404) (UserHandler 1))
          (StatusCode 404) (UserHandler 2)) (ExceptionClass ''KeyError'') = Some (UserHandler 7)"
  using add_exception_handler_last_write_wins
          [of "add_exception_handler (FastAPI_attributes routed_config)
                 (ExceptionClass ''KeyError'') (UserHandler 7)"
              "StatusCode 404" "UserHandler 1" "UserHandler 2"]
  by (simp add: add_exception_handler_def)

section \<open>The built-in exception handlers\<close>

text \<open>
  Claim C7. After construction the exception handler registry maps the generic HTTP-status
  exception type (\<open>StarletteHTTPException\<close>) to \<open>http_exception_handler\<close> and the
  request-validation failure type (\<open>RequestValidationError\<close>) to
  \<open>request_validation_exception_handler\<close>. The two registrations are the first statements
  of \<open>setup\<close> after the \<open>routes\<close> guard and stand before every assertion, so they also hold
  of the state \<open>setup_exception_handlers a0\<close> that the later steps start from.
\<close>

theorem builtin_exception_handlers_registered:
  "exception_handlers (setup_exception_handlers a0) StarletteHTTPException
     = Some http_exception_handler
   \<and> exception_handlers (setup_exception_handlers a0) RequestValidationError
     = Some request_validation_exception_handler
   \<and> (\<forall>a. FastAPI_init c = Inr a \<longrightarrow>
          exception_handlers a StarletteHTTPException = Some http_exception_handler
        \<and> exception_handlers a RequestValidationError
            = Some request_validation_exception_handler)"
proof -
  have "exception_handlers a StarletteHTTPException = Some http_exception_handler
        \<and> exception_handlers a RequestValidationError
            = Some request_validation_exception_handler"
    if "FastAPI_init c = Inr a" for a
    by (simp add: FastAPI_init_Inr(2) [OF that])
  then show ?thesis
    by (simp add: setup_exception_handlers_def add_exception_handler_def)
qed

theorem builtin_exception_handlers_registered_witness:
  "\<not> isl (FastAPI_init routed_config)
   \<and> exception_handlers (projr (FastAPI_init routed_config)) StarletteHTTPException
       = Some http_exception_handler
   \<and> exception_handlers (projr (FastAPI_init routed_config)) RequestValidationError
       = Some request_validation_exception_handler"
proof -
  have ok: "FastAPI_init routed_config = Inr (projr (FastAPI_init routed_config))"
    by (simp add: eval_defs)
  have "\<not> isl (FastAPI_init routed_config)"
    by (simp add: eval_defs)
  with builtin_exception_handlers_registered [of _ routed_config] ok
  show ?thesis by blast
qed

text \<open>
  Claim C10. When the constructor is given an \<open>exception_handlers\<close> dictionary, the registry
  after construction is that dictionary with the two built-in registrations written over it:
  a custom handler supplied for \<open>StarletteHTTPException\<close> or \<open>RequestValidationError\<close> is
  replaced by the built-in one, and every other key keeps the supplied handler.
\<close>

theorem constructor_handlers_overwritten:
  assumes "arg_exception_handlers c = Some eh"
    and "FastAPI_init c = Inr a"
  shows "exception_handlers a =
           eh(StarletteHTTPException \<mapsto> http_exception_handler,
              RequestValidationError \<mapsto> request_validation_exception_handler)"
  using FastAPI_init_Inr(2) [OF assms(2)] assms(1) by simp

theorem constructor_handlers_overwritten_witness:
  "\<not> isl (FastAPI_init custom_handlers_config)
   \<and> exception_handlers (projr (FastAPI_init custom_handlers_config)) StarletteHTTPException
       = Some http_exception_handler
   \<and> exception_handlers (projr (FastAPI_init custom_handlers_config)) RequestValidationError
       = Some request_validation_exception_handler
   \<and> exception_handlers (projr (FastAPI_init custom_handlers_config)) (StatusCode 404)
       = Some (UserHandler 3)"
proof -
  have ok: "FastAPI_init custom_handlers_config
              = Inr (projr (FastAPI_init custom_handlers_config))"
    by (simp add: custom_handlers_config_def eval_defs)
  have eh: "arg_exception_handlers custom_handlers_config =
              Some [StarletteHTTPException \<mapsto> UserHandler 1,
                    RequestValidationError \<mapsto> UserHandler 2,
                    StatusCode 404 \<mapsto> UserHandler 3]"
    by (simp add: custom_handlers_config_def)
  have "\<not> isl (FastAPI_init custom_handlers_config)"
    by (simp add: custom_handlers_config_def eval_defs)
  then show ?thesis
    by (simp add: constructor_handlers_overwritten [OF eh ok])
qed

section \<open>The route list\<close>

text \<open>
  Claim C8 expects that \<open>setup\<close> copies the Router's routes into a list of the application's
  own and that \<open>mount\<close> appends to that list only, leaving the Router's list unchanged. The
  code does not do that: \<open>self.routes\<close> is the Router's list, so \<open>mount\<close> appends its
  \<open>Mount\<close> entry to the Router's list, the application's list and the Router's list are one
  and cannot diverge, line 165 extends the list with itself (with
  \<open>FastAPI(routes=[Route("/", home)])\<close> every route is held twice after construction), and
  without a \<open>routes\<close> argument line 115 raises.
\<close>

theorem mount_appends_to_router_list:
  "router_routes (router (mount a path app name))
     = router_routes (router a) @ [Mount path app name]
   \<and> router_routes (router (mount a path app name)) \<noteq> router_routes (router a)
   \<and> routes (mount a path app name) = router_routes (router (mount a path app name))
   \<and> \<not> isl (FastAPI_init routed_config)
   \<and> router_routes (router (projr (FastAPI_init routed_config)))
       = [home_route,
          Route (PyStr ''/openapi.json'') OpenAPIEndpoint None None False,
          Route (PyStr ''/docs'') SwaggerUIEndpoint None None False,
          Route (PyStr ''/docs/oauth2-redirect'') OAuth2RedirectEndpoint None None False,
          Route (PyStr ''/redoc'') ReDocEndpoint None None False,
          home_route,
          Route (PyStr ''/openapi.json'') OpenAPIEndpoint None None False,
          Route (PyStr ''/docs'') SwaggerUIEndpoint None None False,
          Route (PyStr ''/docs/oauth2-redirect'') OAuth2RedirectEndpoint None None False,
          Route (PyStr ''/redoc'') ReDocEndpoint None None False]
   \<and> FastAPI_init default_config = Inl (AttributeError)"
proof -
  have "router_routes (router (mount a path app name))
          = router_routes (router a) @ [Mount path app name]
        \<and> router_routes (router (mount a path app name)) \<noteq> router_routes (router a)
        \<and> routes (mount a path app name) = router_routes (router (mount a path app name))"
    by (simp add: mount_def routes_def)
  moreover have "\<not> isl (FastAPI_init routed_config)"
    by (simp add: eval_defs)
  moreover have "router_routes (router (projr (FastAPI_init routed_config)))
       = [home_route,
          Route (PyStr ''/openapi.json'') OpenAPIEndpoint None None False,
          Route (PyStr ''/docs'') SwaggerUIEndpoint None None False,
          Route (PyStr ''/docs/oauth2-redirect'') OAuth2RedirectEndpoint None None False,
          Route (PyStr ''/redoc'') ReDocEndpoint None None False,
          home_route,
          Route (PyStr ''/openapi.json'') OpenAPIEndpoint None None False,
          Route (PyStr ''/docs'') SwaggerUIEndpoint None None False,
          Route (PyStr ''/docs/oauth2-redirect'') OAuth2RedirectEndpoint None None False,
          Route (PyStr ''/redoc'') ReDocEndpoint None None False]"
    by (simp add: eval_defs)
  moreover have "FastAPI_init default_config = Inl (AttributeError)"
    by (simp add: FastAPI_init_Inl_iff default_config_def)
  ultimately show ?thesis by blast
qed

section \<open>Event handlers\<close>

text \<open>
  Claim C9. \<open>add_event_handler(event_type, fn)\<close> raises at once (the assertion of line 259)
  for every \<open>event_type\<close> other than "startup" and "shutdown"; for "startup" it appends \<open>fn\<close>
  to the Router's startup hook list, for "shutdown" to the Router's shutdown hook list. After
  any sequence of successful calls each list is its old content followed by the functions
  registered for it, in the order of the calls.
\<close>

theorem add_event_handler_contract:
  "(event_type \<noteq> ''startup'' \<and> event_type \<noteq> ''shutdown'' \<longrightarrow>
      add_event_handler a event_type func = Inl (AssertionError event_type_message))
   \<and> add_event_handler a ''startup'' func =
       Inr (a\<lparr>router := (router a)\<lparr>on_startup := on_startup (router a) @ [func]\<rparr>\<rparr>)
   \<and> add_event_handler a ''shutdown'' func =
       Inr (a\<lparr>router := (router a)\<lparr>on_shutdown := on_shutdown (router a) @ [func]\<rparr>\<rparr>)
   \<and> (\<forall>a'. add_event_handlers a calls = Inr a' \<longrightarrow>
         on_startup (router a') =
           on_startup (router a) @ map snd (filter (\<lambda>call. fst call = ''startup'') calls)
       \<and> on_shutdown (router a') =
           on_shutdown (router a) @ map snd (filter (\<lambda>call. fst call = ''shutdown'') calls))"
  using add_event_handlers_hooks [of a calls]
  by (simp add: add_event_handler_def)

theorem add_event_handler_contract_witness:
  "add_event_handler (FastAPI_attributes routed_config) ''reload'' 9
     = Inl (AssertionError event_type_message)
   \<and> \<not> isl (add_event_handlers (FastAPI_attributes routed_config)
              [(''startup'', 1), (''shutdown'', 2), (''startup'', 3)])
   \<and> on_startup (router (projr (add_event_handlers (FastAPI_attributes routed_config)
              [(''startup'', 1), (''shutdown'', 2), (''startup'', 3)]))) = [1, 3]
   \<and> on_shutdown (router (projr (add_event_handlers (FastAPI_attributes routed_config)
              [(''startup'', 1), (''shutdown'', 2), (''startup'', 3)]))) = [2]"
proof -
  let ?a = "FastAPI_attributes routed_config"
  let ?calls = "[(''startup'', 1::nat), (''shutdown'', 2), (''startup'', 3)]"
  have ok: "add_event_handlers ?a ?calls = Inr (projr (add_event_handlers ?a ?calls))"
    by (simp add: add_event_handler_def)
  have ne: "''reload'' \<noteq> ''startup'' \<and> ''reload'' \<noteq> ''shutdown''"
    by simp
  have "on_startup (router ?a) = [] \<and> on_shutdown (router ?a) = []"
    by (simp add: FastAPI_attributes_def APIRouter_init_def routed_config_def default_config_def)
  moreover have "\<not> isl (add_event_handlers ?a ?calls)"
    by (simp add: add_event_handler_def)
  ultimately show ?thesis
    using add_event_handler_contract [of "''reload''" ?a 9 ?calls] ok ne
    by simp
qed

section \<open>The schema compiler and its cache\<close>

text \<open>
  Claim C2, as stated, fails: it speaks of every application with a configured schema URL,
  and only \<open>None\<close> leaves the schema URL unconfigured. With \<open>openapi_url=""\<close> construction
  succeeds, and \<open>openapi()\<close> returns no document: the guard of line 179 is true of the empty
  string and the call raises \<open>RuntimeError\<close>.
\<close>

theorem empty_schema_url_openapi_raises:
  "arg_openapi_url empty_schema_config \<noteq> PyNone
   \<and> \<not> isl (FastAPI_init empty_schema_config)
   \<and> openapi sample_get_openapi (projr (FastAPI_init empty_schema_config))
       = Inl (RuntimeError ''The OpenAPI URL is not set, it was disabled.'')"
  by (simp add: empty_schema_config_def eval_defs openapi_def)

text \<open>
  Claim C2, amended. For every application whose schema URL has a true truth value (it is
  neither \<open>None\<close> nor the empty string), \<open>openapi()\<close> returns a document \<open>d\<close> and leaves an
  application that stores \<open>d\<close>: when no non-empty document is stored yet (as after
  construction, where the cache is \<open>None\<close>), \<open>d\<close> is the document that \<open>get_openapi\<close>
  compiles from the application, and it is stored; when a non-empty document is stored, \<open>d\<close>
  is that document and nothing changes. With nothing modified in between, the second call
  returns the same \<open>d\<close> and the same application; and \<open>d\<close> being a non-empty dictionary (as a
  version-tagged document is), the second call returns it whatever compiler is plugged in,
  so it does not compile again.
\<close>

theorem openapi_cached:
  assumes "truthy (openapi_url a)"
  shows "\<exists>d a'. openapi get_openapi a = Inr (d, a')
           \<and> (\<not> (\<exists>d0. openapi_schema a = Some d0 \<and> d0 \<noteq> []) \<longrightarrow>
                d = get_openapi (get_openapi_args a)
                \<and> a' = a\<lparr>openapi_schema := Some (get_openapi (get_openapi_args a))\<rparr>)
           \<and> (\<forall>d0. openapi_schema a = Some d0 \<and> d0 \<noteq> [] \<longrightarrow> d = d0 \<and> a' = a)
           \<and> openapi_schema a' = Some d
           \<and> get_openapi_args a' = get_openapi_args a
           \<and> openapi get_openapi a' = Inr (d, a')
           \<and> (d \<noteq> [] \<longrightarrow> (\<forall>g. openapi g a' = Inr (d, a')))"
proof (cases "\<exists>d0. openapi_schema a = Some d0 \<and> d0 \<noteq> []")
  case True
  then obtain d0 where d0: "openapi_schema a = Some d0" "d0 \<noteq> []" by blast
  with assms have "openapi g a = Inr (d0, a)" for g
    by (simp add: openapi_def)
  with d0 True show ?thesis by auto
next
  case False
  let ?d = "get_openapi (get_openapi_args a)"
  let ?a' = "a\<lparr>openapi_schema := Some ?d\<rparr>"
  from False assms have first: "openapi get_openapi a = Inr (?d, ?a')"
    by (auto simp: openapi_def Let_def split: option.splits)
  have args: "get_openapi_args ?a' = get_openapi_args a"
    by simp
  from assms have second: "openapi get_openapi ?a' = Inr (?d, ?a')"
    by (simp add: openapi_def Let_def)
  from assms have later: "?d \<noteq> [] \<Longrightarrow> openapi g ?a' = Inr (?d, ?a')" for g
    by (simp add: openapi_def)
  have stored: "openapi_schema ?a' = Some ?d"
    by simp
  from False first args second later stored show ?thesis
    by (intro exI [of _ ?d] exI [of _ ?a']) blast
qed

theorem openapi_cached_witness:
  "truthy (openapi_url (projr (FastAPI_init routed_config)))
   \<and> openapi_schema (projr (FastAPI_init routed_config)) = None
   \<and> (\<exists>d a'. openapi sample_get_openapi (projr (FastAPI_init routed_config)) = Inr (d, a')
          \<and> d = sample_get_openapi (get_openapi_args (projr (FastAPI_init routed_config)))
          \<and> d \<noteq> []
          \<and> openapi_schema a' = Some d
          \<and> (\<forall>g. openapi g a' = Inr (d, a')))
   \<and> openapi sample_get_openapi
        ((projr (FastAPI_init routed_config))
           \<lparr>openapi_schema := Some [(''openapi'', JStr ''3.0.2'')]\<rparr>)
       = Inr ([(''openapi'', JStr ''3.0.2'')],
              (projr (FastAPI_init routed_config))
                \<lparr>openapi_schema := Some [(''openapi'', JStr ''3.0.2'')]\<rparr>)"
proof -
  let ?a = "projr (FastAPI_init routed_config)"
  let ?b = "?a\<lparr>openapi_schema := Some [(''openapi'', JStr ''3.0.2'')]\<rparr>"
  have t: "truthy (openapi_url ?a)"
    by (simp add: eval_defs)
  have c: "openapi_schema ?a = None"
    by (simp add: eval_defs)
  have n: "sample_get_openapi (get_openapi_args ?a) \<noteq> []"
    by (simp add: sample_get_openapi_def)
  from openapi_cached [where a = ?a and get_openapi = sample_get_openapi, OF t]
  obtain d a' where
    r: "openapi sample_get_openapi ?a = Inr (d, a')" and
    f: "\<not> (\<exists>d0. openapi_schema ?a = Some d0 \<and> d0 \<noteq> []) \<longrightarrow>
          d = sample_get_openapi (get_openapi_args ?a)
          \<and> a' = ?a\<lparr>openapi_schema := Some (sample_get_openapi (get_openapi_args ?a))\<rparr>" and
    s: "openapi_schema a' = Some d" and
    g: "d \<noteq> [] \<longrightarrow> (\<forall>g. openapi g a' = Inr (d, a'))"
    by blast
  from f c have d: "d = sample_get_openapi (get_openapi_args ?a)"
    by simp
  with n have "d \<noteq> []" by simp
  with t c r d s g have fresh:
    "\<exists>d a'. openapi sample_get_openapi ?a = Inr (d, a')
          \<and> d = sample_get_openapi (get_openapi_args ?a)
          \<and> d \<noteq> []
          \<and> openapi_schema a' = Some d
          \<and> (\<forall>g. openapi g a' = Inr (d, a'))"
    by blast
  have tb: "truthy (openapi_url ?b)"
    using t by simp
  from openapi_cached [where a = ?b and get_openapi = sample_get_openapi, OF tb]
  obtain d2 b' where
    r2: "openapi sample_get_openapi ?b = Inr (d2, b')" and
    h2: "\<forall>d0. openapi_schema ?b = Some d0 \<and> d0 \<noteq> [] \<longrightarrow> d2 = d0 \<and> b' = ?b"
    by blast
  from h2 have "d2 = [(''openapi'', JStr ''3.0.2'')] \<and> b' = ?b"
    by simp
  with r2 have cached: "openapi sample_get_openapi ?b = Inr ([(''openapi'', JStr ''3.0.2'')], ?b)"
    by simp
  from t c fresh cached show ?thesis by blast
qed

text \<open>
  Claim C3. For an application constructed with \<open>openapi_url=None\<close>, \<open>openapi()\<close> fails with
  the feature-disabled \<open>RuntimeError\<close>, and \<open>setup\<close> registers no schema route: the routes
  with the schema endpoint in the route list after construction are those of the
  constructor's \<open>routes\<close> argument and no other (each held twice, as line 165 leaves every
  route). The application's list and the Router's list are the same list.
\<close>

theorem schema_disabled_when_url_unset:
  assumes "arg_openapi_url c = PyNone"
    and "FastAPI_init c = Inr a"
  shows "openapi get_openapi a
           = Inl (RuntimeError ''The OpenAPI URL is not set, it was disabled.'')
       \<and> filter (\<lambda>r. endpoint_of r = Some OpenAPIEndpoint) (router_routes (router a))
           = filter (\<lambda>r. endpoint_of r = Some OpenAPIEndpoint)
               (case arg_routes c of None \<Rightarrow> [] | Some l \<Rightarrow> l)
             @ filter (\<lambda>r. endpoint_of r = Some OpenAPIEndpoint)
               (case arg_routes c of None \<Rightarrow> [] | Some l \<Rightarrow> l)
       \<and> filter (\<lambda>r. endpoint_of r = Some OpenAPIEndpoint) (routes a)
           = filter (\<lambda>r. endpoint_of r = Some OpenAPIEndpoint)
               (case arg_routes c of None \<Rightarrow> [] | Some l \<Rightarrow> l)
             @ filter (\<lambda>r. endpoint_of r = Some OpenAPIEndpoint)
               (case arg_routes c of None \<Rightarrow> [] | Some l \<Rightarrow> l)"
proof -
  note init = FastAPI_init_Inr [OF assms(2)]
  from init(1) assms(1) have "openapi get_openapi a
           = Inl (RuntimeError ''The OpenAPI URL is not set, it was disabled.'')"
    by (simp add: openapi_def)
  moreover from init(3) assms(1)
  have r: "filter (\<lambda>r. endpoint_of r = Some OpenAPIEndpoint) (router_routes (router a))
           = filter (\<lambda>r. endpoint_of r = Some OpenAPIEndpoint)
               (case arg_routes c of None \<Rightarrow> [] | Some l \<Rightarrow> l)
             @ filter (\<lambda>r. endpoint_of r = Some OpenAPIEndpoint)
               (case arg_routes c of None \<Rightarrow> [] | Some l \<Rightarrow> l)"
    by (simp add: Let_def)
  ultimately show ?thesis by (simp add: routes_def)
qed

theorem schema_disabled_when_url_unset_witness:
  "arg_openapi_url no_schema_config = PyNone
   \<and> \<not> isl (FastAPI_init no_schema_config)
   \<and> openapi sample_get_openapi (projr (FastAPI_init no_schema_config))
       = Inl (RuntimeError ''The OpenAPI URL is not set, it was disabled.'')
   \<and> filter (\<lambda>r. endpoint_of r = Some OpenAPIEndpoint)
       (router_routes (router (projr (FastAPI_init no_schema_config)))) = []
   \<and> filter (\<lambda>r. endpoint_of r = Some OpenAPIEndpoint)
       (routes (projr (FastAPI_init no_schema_config))) = []"
proof -
  have u: "arg_openapi_url no_schema_config = PyNone"
    by (simp add: no_schema_config_def)
  have ok: "FastAPI_init no_schema_config = Inr (projr (FastAPI_init no_schema_config))"
    by (simp add: no_schema_config_def eval_defs)
  have n: "\<not> isl (FastAPI_init no_schema_config)"
    by (simp add: no_schema_config_def eval_defs)
  have r: "arg_routes no_schema_config = Some [home_route]"
    by (simp add: no_schema_config_def routed_config_def)
  have h: "endpoint_of home_route \<noteq> Some OpenAPIEndpoint"
    by (simp add: home_route_def)
  from schema_disabled_when_url_unset [OF u ok, of sample_get_openapi] u n r h
  show ?thesis by simp
qed

section \<open>Validation of the URL options\<close>

text \<open>
  Claim C6, as stated, fails: it speaks of every configured schema URL that does not end in
  \<open>.json\<close>, and only \<open>None\<close> leaves the schema URL unconfigured. The empty string does not end
  in \<open>.json\<close>; with \<open>openapi_url=""\<close> the guard \<open>if self.openapi_url:\<close> of line 124 is false,
  nothing is validated, construction succeeds and registers no schema route.
\<close>

theorem empty_schema_url_raises_nothing:
  "arg_openapi_url empty_schema_config \<noteq> PyNone
   \<and> \<not> endswith (str_of (arg_openapi_url empty_schema_config)) ''.json''
   \<and> \<not> isl (FastAPI_init empty_schema_config)
   \<and> filter (\<lambda>r. endpoint_of r = Some OpenAPIEndpoint)
       (router_routes (router (projr (FastAPI_init empty_schema_config)))) = []"
  by (simp add: empty_schema_config_def eval_defs)

text \<open>
  Claim C6, amended. For every schema URL whose truth value is true (it is neither \<open>None\<close>
  nor the empty string) and that is not a string ending in \<open>.json\<close>, construction raises
  synchronously, so no object is returned; the error is "openapi_url must end with '.json'"
  exactly when, besides, the \<open>routes\<close> guard of lines 114-115 has let \<open>setup\<close> start. A schema
  URL whose truth value is false is not validated: the schema step raises nothing and
  registers nothing. For a schema URL \<open>u\<close> that ends in \<open>.json\<close>, the schema step of \<open>setup\<close>
  registers the route \<open>u\<close> with \<open>include_in_schema\<close> false, and every application that
  construction returns holds that route, first after the routes the Router started with.
\<close>

theorem schema_url_must_end_in_json:
  "(truthy (arg_openapi_url c) \<and>
      \<not> (isinstance_str (arg_openapi_url c) \<and> endswith (str_of (arg_openapi_url c)) ''.json'')
      \<longrightarrow> isl (FastAPI_init c))
   \<and> (FastAPI_init c = Inl (AssertionError openapi_url_message) \<longleftrightarrow>
        (case arg_routes c of None \<Rightarrow> [] | Some l \<Rightarrow> l) \<noteq> [] \<and>
        truthy (arg_openapi_url c) \<and>
        \<not> (isinstance_str (arg_openapi_url c) \<and> endswith (str_of (arg_openapi_url c)) ''.json''))
   \<and> (\<not> truthy (openapi_url b) \<longrightarrow> setup_openapi b = Inr b)
   \<and> (endswith u ''.json'' \<longrightarrow>
        setup_openapi (b\<lparr>openapi_url := PyStr u\<rparr>)
          = Inr (add_route (b\<lparr>openapi_url := PyStr u\<rparr>) (PyStr u) OpenAPIEndpoint None None False)
        \<and> (\<forall>a. arg_openapi_url c = PyStr u \<and> FastAPI_init c = Inr a \<longrightarrow>
              (\<exists>rest. router_routes (router a) =
                 (case arg_routes c of None \<Rightarrow> [] | Some l \<Rightarrow> l) @
                 Route (PyStr u) OpenAPIEndpoint None None False # rest)
              \<and> Route (PyStr u) OpenAPIEndpoint None None False \<in> set (routes a)))"
proof -
  have m: "openapi_url_message \<noteq> ''docs_url must be a string''"
          "openapi_url_message \<noteq> ''redoc_url must be a string''"
    by (simp_all add: openapi_url_message_def)
  have raises: "isl (FastAPI_init c)"
    if "truthy (arg_openapi_url c) \<and>
      \<not> (isinstance_str (arg_openapi_url c) \<and> endswith (str_of (arg_openapi_url c)) ''.json'')"
    unfolding isl_iff_Inl FastAPI_init_Inl_iff using that by auto
  have which: "FastAPI_init c = Inl (AssertionError openapi_url_message) \<longleftrightarrow>
        (case arg_routes c of None \<Rightarrow> [] | Some l \<Rightarrow> l) \<noteq> [] \<and>
        truthy (arg_openapi_url c) \<and>
        \<not> (isinstance_str (arg_openapi_url c) \<and> endswith (str_of (arg_openapi_url c)) ''.json'')"
    unfolding FastAPI_init_Inl_iff using m by auto
  have skipped: "setup_openapi b = Inr b" if "\<not> truthy (openapi_url b)"
    using that by (simp add: setup_openapi_def)
  have registered:
    "setup_openapi (b\<lparr>openapi_url := PyStr u\<rparr>)
          = Inr (add_route (b\<lparr>openapi_url := PyStr u\<rparr>) (PyStr u) OpenAPIEndpoint None None False)
        \<and> (\<forall>a. arg_openapi_url c = PyStr u \<and> FastAPI_init c = Inr a \<longrightarrow>
              (\<exists>rest. router_routes (router a) =
                 (case arg_routes c of None \<Rightarrow> [] | Some l \<Rightarrow> l) @
                 Route (PyStr u) OpenAPIEndpoint None None False # rest)
              \<and> Route (PyStr u) OpenAPIEndpoint None None False \<in> set (routes a))"
    if e: "endswith u ''.json''"
  proof -
    from e have ne: "u \<noteq> []"
      by (rule endswith_nonempty) simp
    with e have stage: "setup_openapi (b\<lparr>openapi_url := PyStr u\<rparr>)
          = Inr (add_route (b\<lparr>openapi_url := PyStr u\<rparr>) (PyStr u) OpenAPIEndpoint None None False)"
      by (simp add: setup_openapi_def)
    have "(\<exists>rest. router_routes (router a) =
                 (case arg_routes c of None \<Rightarrow> [] | Some l \<Rightarrow> l) @
                 Route (PyStr u) OpenAPIEndpoint None None False # rest)
              \<and> Route (PyStr u) OpenAPIEndpoint None None False \<in> set (routes a)"
      if u: "arg_openapi_url c = PyStr u" and ok: "FastAPI_init c = Inr a" for a
    proof -
      note init = FastAPI_init_Inr [OF ok]
      from init(3) u ne have rr: "\<exists>rest. router_routes (router a) =
                 (case arg_routes c of None \<Rightarrow> [] | Some l \<Rightarrow> l) @
                 Route (PyStr u) OpenAPIEndpoint None None False # rest"
        by (simp add: Let_def)
      then have "Route (PyStr u) OpenAPIEndpoint None None False \<in> set (router_routes (router a))"
        by auto
      then have "Route (PyStr u) OpenAPIEndpoint None None False \<in> set (routes a)"
        by (simp add: routes_def)
      with rr show ?thesis by blast
    qed
    with stage show ?thesis by blast
  qed
  from raises which skipped registered show ?thesis by blast
qed

theorem schema_url_must_end_in_json_witness:
  "truthy (arg_openapi_url yaml_schema_config)
   \<and> \<not> endswith (str_of (arg_openapi_url yaml_schema_config)) ''.json''
   \<and> FastAPI_init yaml_schema_config = Inl (AssertionError openapi_url_message)
   \<and> \<not> truthy (openapi_url (FastAPI_attributes empty_schema_config))
   \<and> setup_openapi (FastAPI_attributes empty_schema_config)
       = Inr (FastAPI_attributes empty_schema_config)
   \<and> endswith ''/openapi.json'' ''.json''
   \<and> arg_openapi_url routed_config = PyStr ''/openapi.json''
   \<and> \<not> isl (FastAPI_init routed_config)
   \<and> Route (PyStr ''/openapi.json'') OpenAPIEndpoint None None False
       \<in> set (routes (projr (FastAPI_init routed_config)))
   \<and> (\<exists>rest. router_routes (router (projr (FastAPI_init routed_config)))
         = [home_route, Route (PyStr ''/openapi.json'') OpenAPIEndpoint None None False] @ rest)"
proof -
  have y: "truthy (arg_openapi_url yaml_schema_config)
           \<and> \<not> endswith (str_of (arg_openapi_url yaml_schema_config)) ''.json''"
    by (simp add: yaml_schema_config_def endswith_def)
  have yr: "(case arg_routes yaml_schema_config of None \<Rightarrow> [] | Some l \<Rightarrow> l) \<noteq> []"
    by (simp add: yaml_schema_config_def routed_config_def)
  have f: "\<not> truthy (openapi_url (FastAPI_attributes empty_schema_config))"
    by (simp add: empty_schema_config_def FastAPI_attributes_def)
  have e: "endswith ''/openapi.json'' ''.json''"
    by (simp add: endswith_def)
  have u: "arg_openapi_url routed_config = PyStr ''/openapi.json''"
    by (simp add: routed_config_def default_config_def)
  have r: "arg_routes routed_config = Some [home_route]"
    by (simp add: routed_config_def)
  have ok: "FastAPI_init routed_config = Inr (projr (FastAPI_init routed_config))"
    by (simp add: eval_defs)
  have n: "\<not> isl (FastAPI_init routed_config)"
    by (simp add: eval_defs)
  from schema_url_must_end_in_json [of yaml_schema_config] y yr
  have bad: "FastAPI_init yaml_schema_config = Inl (AssertionError openapi_url_message)"
    by blast
  from schema_url_must_end_in_json [of _ "FastAPI_attributes empty_schema_config"] f
  have skip: "setup_openapi (FastAPI_attributes empty_schema_config)
       = Inr (FastAPI_attributes empty_schema_config)"
    by blast
  from schema_url_must_end_in_json [of routed_config _ "''/openapi.json''"] e u ok
  have good: "(\<exists>rest. router_routes (router (projr (FastAPI_init routed_config))) =
                 (case arg_routes routed_config of None \<Rightarrow> [] | Some l \<Rightarrow> l) @
                 Route (PyStr ''/openapi.json'') OpenAPIEndpoint None None False # rest)
              \<and> Route (PyStr ''/openapi.json'') OpenAPIEndpoint None None False
                  \<in> set (routes (projr (FastAPI_init routed_config)))"
    by blast
  with r have "\<exists>rest. router_routes (router (projr (FastAPI_init routed_config)))
         = [home_route, Route (PyStr ''/openapi.json'') OpenAPIEndpoint None None False] @ rest"
    by simp
  with y f e u n bad skip good show ?thesis by blast
qed




section \<open>The middleware list\<close>

text \<open>
  Claim C1 expects, for the constructor list \<open>[A, B]\<close> followed by \<open>add_middleware(C)\<close> and
  \<open>add_middleware(D)\<close>, the order \<open>[ErrorBoundary, D, C, A, B]\<close>. The code does not produce
  it. \<open>setup\<close> inserts the error boundary and then \<open>A\<close> and \<open>B\<close> at the front of
  \<open>user_middleware\<close>, which gives \<open>[B, A, ErrorBoundary]\<close>, and then iterates over the reversed
  live list while inserting into it, which gives \<open>[B, B, ErrorBoundary, B, A, ErrorBoundary]\<close>;
  the two later calls put \<open>D\<close> and \<open>C\<close> in front. Here \<open>A\<close>, \<open>B\<close>, \<open>C\<close> and \<open>D\<close> are the classes
  number 0, 1, 2 and 3, and the constructor is also given one route, without which
  line 115 raises before any middleware is added.
\<close>

theorem middleware_order_after_two_adds:
  "\<not> isl (FastAPI_init two_middleware_config)
   \<and> map cls (user_middleware (projr (FastAPI_init two_middleware_config)))
     = [MiddlewareClass 1, MiddlewareClass 1, ServerErrorMiddleware,
        MiddlewareClass 1, MiddlewareClass 0, ServerErrorMiddleware]
   \<and> map cls (user_middleware
       (add_middleware
          (add_middleware (projr (FastAPI_init two_middleware_config)) (MiddlewareClass 2) [])
          (MiddlewareClass 3) []))
     = [MiddlewareClass 3, MiddlewareClass 2,
        MiddlewareClass 1, MiddlewareClass 1, ServerErrorMiddleware,
        MiddlewareClass 1, MiddlewareClass 0, ServerErrorMiddleware]
   \<and> FastAPI_init (two_middleware_config\<lparr>arg_routes := None\<rparr>)
       = Inl (AttributeError)"
  by (simp add: two_middleware_config_def eval_defs)

end
